theory Spec2Isabelle
  imports Main
begin

section \<open>Flags (types/flags.ts)\<close>

text \<open>
  \<^verbatim>\<open>ServiceCalculationFlags\<close> (config/services.ts) is the subset of the flags that
  \<^verbatim>\<open>calculateServices\<close> reads; \<^verbatim>\<open>TestnodeFlags\<close> has all of its fields and is passed
  where a \<^verbatim>\<open>ServiceCalculationFlags\<close> is expected (structural typing). The record
  extension below gives exactly that: every function on a
  \<open>'a ServiceCalculationFlags_scheme\<close> accepts a \<open>TestnodeFlags\<close>.
  The numeric flags are JavaScript numbers holding integers; they are \<open>int\<close> here, so
  that out-of-range values (which the validator tests for) exist in the model.
\<close>

record ServiceCalculationFlags =
  simple :: bool
  redundantsequencers :: int
  batchposters :: int
  validate :: bool
  l3node :: bool
  blockscout :: bool
  l2Timeboost :: bool

record TestnodeFlags = ServiceCalculationFlags +
  init :: bool
  force :: bool
  devNitro :: bool
  devBlockscout :: bool
  devContracts :: bool
  build :: bool
  buildDevNitro :: bool
  buildDevBlockscout :: bool
  buildUtils :: bool
  forceBuildUtils :: bool
  buildNodeImages :: bool
  tokenbridge :: bool
  l3FeeToken :: bool
  l3FeeTokenPricer :: bool
  l3FeeTokenDecimals :: int
  l3TokenBridge :: bool
  l2Anytrust :: bool
  pos :: bool
  run :: bool
  detach :: bool
  nowait :: bool
  l1Traffic :: bool
  l2Traffic :: bool
  l3Traffic :: bool
  ci :: bool
  verbose :: bool

definition defaultFlags :: TestnodeFlags where
  "defaultFlags = \<lparr>
     simple = True,
     redundantsequencers = 0,
     batchposters = 1,
     validate = False,
     l3node = False,
     blockscout = False,
     l2Timeboost = False,
     init = False,
     force = False,
     devNitro = False,
     devBlockscout = False,
     devContracts = False,
     build = False,
     buildDevNitro = False,
     buildDevBlockscout = False,
     buildUtils = False,
     forceBuildUtils = False,
     buildNodeImages = False,
     tokenbridge = False,
     l3FeeToken = False,
     l3FeeTokenPricer = False,
     l3FeeTokenDecimals = 18,
     l3TokenBridge = False,
     l2Anytrust = False,
     pos = False,
     run = True,
     detach = False,
     nowait = False,
     l1Traffic = True,
     l2Traffic = True,
     l3Traffic = True,
     ci = False,
     verbose = False \<rparr>"

section \<open>Constants (config/defaults.ts)\<close>

definition MAX_BATCH_POSTERS :: int where
  "MAX_BATCH_POSTERS = 3"

definition MAX_REDUNDANT_SEQUENCERS :: int where
  "MAX_REDUNDANT_SEQUENCERS = 3"

definition MIN_FEE_TOKEN_DECIMALS :: int where
  "MIN_FEE_TOKEN_DECIMALS = 0"

definition MAX_FEE_TOKEN_DECIMALS :: int where
  "MAX_FEE_TOKEN_DECIMALS = 36"

section \<open>Service calculation (config/services.ts)\<close>

text \<open>
  \<^verbatim>\<open>ServiceName\<close> is a union of string literal types: at run time a service name is
  a string, and it is one here.
\<close>

type_synonym ServiceName = string

text \<open>
  \<^verbatim>\<open>calculateServices\<close> starts from the empty array and pushes in a fixed order; each
  conditional push is a list that is empty when the condition fails.
\<close>

definition calculateServices :: "'a ServiceCalculationFlags_scheme \<Rightarrow> ServiceName list" where
  "calculateServices flags =
     [''sequencer'']
     @ (if \<not> simple flags then [''redis''] else [])
     @ (if redundantsequencers flags > 0 then [''sequencer_b''] else [])
     @ (if redundantsequencers flags > 1 then [''sequencer_c''] else [])
     @ (if redundantsequencers flags > 2 then [''sequencer_d''] else [])
     @ (if batchposters flags > 0 \<and> \<not> simple flags then [''poster''] else [])
     @ (if batchposters flags > 1 then [''poster_b''] else [])
     @ (if batchposters flags > 2 then [''poster_c''] else [])
     @ (if validate flags then [''validator'']
        else if \<not> simple flags then [''staker-unsafe''] else [])
     @ (if l3node flags then [''l3node''] else [])
     @ (if blockscout flags then [''blockscout''] else [])
     @ (if l2Timeboost flags then [''timeboost-auctioneer'', ''timeboost-bid-validator''] else [])"

text \<open>
  \<^verbatim>\<open>calculateInitialSequencerNodes\<close> reads only \<^verbatim>\<open>redundantsequencers\<close>
  (its parameter type is \<^verbatim>\<open>Pick<ServiceCalculationFlags, 'redundantsequencers'>\<close>).
\<close>

definition calculateInitialSequencerNodes :: "'a ServiceCalculationFlags_scheme \<Rightarrow> ServiceName list" where
  "calculateInitialSequencerNodes flags =
     [''sequencer''] @ (if redundantsequencers flags > 0 then [''sequencer_b''] else [])"

section \<open>Flag validation (config/validation.ts)\<close>

record ValidationError =
  code :: string
  message :: string
  field :: "string option"

record ValidationWarning =
  code :: string
  message :: string
  field :: "string option"

record ValidationResult =
  valid :: bool
  errors :: "ValidationError list"
  warnings :: "ValidationWarning list"

text \<open>
  The decimal rendering of an integer, as a template literal prints a number
  (for integers below \<open>10^21\<close> in absolute value, where JavaScript prints all digits).
\<close>

fun natToString :: "nat \<Rightarrow> string" where
  "natToString n =
     (if n < 10 then [''0123456789'' ! n]
      else natToString (n div 10) @ [''0123456789'' ! (n mod 10)])"

definition numberToString :: "int \<Rightarrow> string" where
  "numberToString i = (if i < 0 then ''-'' @ natToString (nat (- i)) else natToString (nat i))"

definition validateRuntimeDependencies :: "TestnodeFlags \<Rightarrow> ValidationError list" where
  "validateRuntimeDependencies flags =
     (if nowait flags \<and> \<not> detach flags
      then [\<lparr> ValidationError.code = ''NOWAIT_REQUIRES_DETACH'',
              message = ''--nowait requires --detach to be provided'',
              field = Some ''nowait'' \<rparr>]
      else [])"

definition validateL3Dependencies :: "TestnodeFlags \<Rightarrow> ValidationError list" where
  "validateL3Dependencies flags =
     (if l3FeeToken flags \<and> \<not> l3node flags
      then [\<lparr> ValidationError.code = ''L3_FEE_TOKEN_REQUIRES_L3NODE'',
              message = ''--l3-fee-token requires --l3node to be provided'',
              field = Some ''l3FeeToken'' \<rparr>]
      else [])
     @ (if l3FeeTokenPricer flags \<and> \<not> l3FeeToken flags
        then [\<lparr> ValidationError.code = ''L3_FEE_TOKEN_PRICER_REQUIRES_FEE_TOKEN'',
                message = ''--l3-fee-token-pricer requires --l3-fee-token to be provided'',
                field = Some ''l3FeeTokenPricer'' \<rparr>]
        else [])
     @ (if l3FeeTokenDecimals flags \<noteq> 18 \<and> \<not> l3FeeToken flags
        then [\<lparr> ValidationError.code = ''L3_FEE_TOKEN_DECIMALS_REQUIRES_FEE_TOKEN'',
                message = ''--l3-fee-token-decimals requires --l3-fee-token to be provided'',
                field = Some ''l3FeeTokenDecimals'' \<rparr>]
        else [])
     @ (if l3TokenBridge flags \<and> \<not> l3node flags
        then [\<lparr> ValidationError.code = ''L3_TOKEN_BRIDGE_REQUIRES_L3NODE'',
                message = ''--l3-token-bridge requires --l3node to be provided'',
                field = Some ''l3TokenBridge'' \<rparr>]
        else [])"

definition validateRangeConstraints :: "TestnodeFlags \<Rightarrow> ValidationError list" where
  "validateRangeConstraints flags =
     (let decimalsOutOfRange =
            (l3FeeTokenDecimals flags < MIN_FEE_TOKEN_DECIMALS
             \<or> l3FeeTokenDecimals flags > MAX_FEE_TOKEN_DECIMALS)
      in (if decimalsOutOfRange
          then [\<lparr> ValidationError.code = ''L3_FEE_TOKEN_DECIMALS_OUT_OF_RANGE'',
                  message = ''l3-fee-token-decimals must be in range ['' @ numberToString MIN_FEE_TOKEN_DECIMALS
                            @ '','' @ numberToString MAX_FEE_TOKEN_DECIMALS @ ''], value: ''
                            @ numberToString (l3FeeTokenDecimals flags),
                  field = Some ''l3FeeTokenDecimals'' \<rparr>]
          else [])
         @ (if batchposters flags < 0 \<or> batchposters flags > MAX_BATCH_POSTERS
            then [\<lparr> ValidationError.code = ''BATCH_POSTERS_OUT_OF_RANGE'',
                    message = ''batchposters must be between 0 and '' @ numberToString MAX_BATCH_POSTERS
                              @ '', value: '' @ numberToString (batchposters flags),
                    field = Some ''batchposters'' \<rparr>]
            else [])
         @ (if redundantsequencers flags < 0 \<or> redundantsequencers flags > MAX_REDUNDANT_SEQUENCERS
            then [\<lparr> ValidationError.code = ''REDUNDANT_SEQUENCERS_OUT_OF_RANGE'',
                    message = ''redundantsequencers must be between 0 and ''
                              @ numberToString MAX_REDUNDANT_SEQUENCERS
                              @ '', value: '' @ numberToString (redundantsequencers flags),
                    field = Some ''redundantsequencers'' \<rparr>]
            else []))"

definition generateWarnings :: "TestnodeFlags \<Rightarrow> ValidationWarning list" where
  "generateWarnings flags =
     (if simple flags \<and> batchposters flags > 1
      then [\<lparr> ValidationWarning.code = ''SIMPLE_MODE_IGNORES_BATCH_POSTERS'',
              message = ''Simple mode uses a single combined node; batchposters setting will be ignored'',
              field = Some ''batchposters'' \<rparr>]
      else [])
     @ (if simple flags \<and> redundantsequencers flags > 0
        then [\<lparr> ValidationWarning.code = ''SIMPLE_MODE_IGNORES_REDUNDANT_SEQUENCERS'',
                message = ''Simple mode uses a single sequencer; redundantsequencers setting will be ignored'',
                field = Some ''redundantsequencers'' \<rparr>]
        else [])
     @ (if l3Traffic flags \<and> \<not> l3node flags
        then [\<lparr> ValidationWarning.code = ''L3_TRAFFIC_WITHOUT_L3NODE'',
                message = ''L3 traffic generation enabled but --l3node is not set'',
                field = Some ''l3Traffic'' \<rparr>]
        else [])"

definition validateFlags :: "TestnodeFlags \<Rightarrow> ValidationResult" where
  "validateFlags flags =
     (let errors = validateRuntimeDependencies flags
                   @ validateL3Dependencies flags
                   @ validateRangeConstraints flags;
          warnings = generateWarnings flags
      in \<lparr> valid = (length errors = 0), errors = errors, warnings = warnings \<rparr>)"

section \<open>String methods (JavaScript)\<close>

text \<open>
  A string is a list of characters; each \<open>char\<close> stands for one UTF-16 code unit below
  256. \<^verbatim>\<open>isWhiteSpace\<close> is what \<^verbatim>\<open>String.prototype.trim\<close> strips and what \<^verbatim>\<open>\s\<close>
  matches (white space and line terminators) among those code units: tab, line feed,
  vertical tab, form feed, carriage return, space and no-break space.
\<close>

definition isWhiteSpace :: "char \<Rightarrow> bool" where
  "isWhiteSpace c =
     (c = CHR 0x09 \<or> c = CHR 0x0A \<or> c = CHR 0x0B \<or> c = CHR 0x0C \<or> c = CHR 0x0D
      \<or> c = CHR 0x20 \<or> c = CHR 0xA0)"

definition trim :: "string \<Rightarrow> string" where
  "trim s = rev (dropWhile isWhiteSpace (rev (dropWhile isWhiteSpace s)))"

text \<open>
  \<^verbatim>\<open>s.split(sep)\<close> for a one-character separator: \<open>cur\<close> holds the piece being read.
  The result is never empty (\<^verbatim>\<open>''.split('\n')\<close> is \<^verbatim>\<open>['']\<close>).
\<close>

fun splitOnFrom :: "char \<Rightarrow> string \<Rightarrow> string \<Rightarrow> string list" where
  "splitOnFrom sep cur [] = [cur]"
| "splitOnFrom sep cur (c # cs) =
     (if c = sep then cur # splitOnFrom sep [] cs else splitOnFrom sep (cur @ [c]) cs)"

definition splitOn :: "char \<Rightarrow> string \<Rightarrow> string list" where
  "splitOn sep s = splitOnFrom sep [] s"

text \<open>
  \<^verbatim>\<open>s.split(/\s+/)\<close>: the separator is a maximal run of white space. A string that
  begins (ends) with white space yields an empty first (last) piece, and the empty
  string yields \<^verbatim>\<open>['']\<close>, as in JavaScript.
\<close>

function splitWhiteSpaceFrom :: "string \<Rightarrow> string \<Rightarrow> string list" where
  "splitWhiteSpaceFrom cur [] = [cur]"
| "splitWhiteSpaceFrom cur (c # cs) =
     (if isWhiteSpace c then cur # splitWhiteSpaceFrom [] (dropWhile isWhiteSpace cs)
      else splitWhiteSpaceFrom (cur @ [c]) cs)"
  by pat_completeness auto
termination
  by (relation "measure (\<lambda>(cur, s). length s)") (auto simp: length_dropWhile_le less_Suc_eq_le)

definition splitWhiteSpace :: "string \<Rightarrow> string list" where
  "splitWhiteSpace s = splitWhiteSpaceFrom [] s"

fun join :: "string \<Rightarrow> string list \<Rightarrow> string" where
  "join sep [] = []"
| "join sep [x] = x"
| "join sep (x # y # ys) = x @ sep @ join sep (y # ys)"

definition startsWith :: "string \<Rightarrow> string \<Rightarrow> bool" where
  "startsWith s p = (take (length p) s = p)"

text \<open>\<^verbatim>\<open>s.replace(/\r\n/g, '\n')\<close>, scanning from the left.\<close>

fun replaceCRLF :: "string \<Rightarrow> string" where
  "replaceCRLF (c # d # cs) =
     (if c = CHR 0x0D \<and> d = CHR 0x0A then CHR 0x0A # replaceCRLF cs
      else c # replaceCRLF (d # cs))"
| "replaceCRLF cs = cs"

section \<open>Output helpers (utils/shell.ts)\<close>

text \<open>
  \<^verbatim>\<open>getLastLine\<close>: \<^verbatim>\<open>lines[lines.length - 1]?.trim() ?? ''\<close>; the index is out of range
  only for an empty array, which \<^verbatim>\<open>split\<close> never returns.
\<close>

definition getLastLine :: "string \<Rightarrow> string" where
  "getLastLine output =
     (let lines = splitOn CHR 0x0A (trim output)
      in if lines = [] then [] else trim (last lines))"

definition cleanOutput :: "string \<Rightarrow> string" where
  "cleanOutput output = trim (filter (\<lambda>c. c \<noteq> CHR 0x0D) (replaceCRLF output))"

section \<open>The run as a trace (utils/logger.ts, utils/shell.ts)\<close>

text \<open>
  The orchestration talks to the outside through the logger and through two functions
  of \<^verbatim>\<open>utils/shell.ts\<close>: \<^verbatim>\<open>runWithCode\<close> (\<^verbatim>\<open>exec\<close>, captured output and an exit code) and
  \<^verbatim>\<open>runStreaming\<close> (\<^verbatim>\<open>spawn\<close>, an exit code only). A run is modelled by the list of
  these calls in the order they happen. What a command answers is not decided by the
  code: it is read from an \<open>Environment\<close>, which may answer differently depending on
  everything that happened before (the trace so far).
\<close>

datatype LogLevel = LogInfo | LogSuccess | LogWarn | LogError | LogDebug | LogStep | LogCommand

text \<open>
  Of the options of \<^verbatim>\<open>spawn\<close> the code sets \<^verbatim>\<open>cwd\<close> and \<^verbatim>\<open>env\<close> (next to the fixed
  \<^verbatim>\<open>stdio\<close> and \<^verbatim>\<open>shell\<close>); \<^verbatim>\<open>ExecOptions\<close> has these two, \<^verbatim>\<open>maxBuffer\<close> and
  \<^verbatim>\<open>timeout\<close> (milliseconds). An absent option is \<open>None\<close>.
\<close>

record SpawnOptions =
  cwd :: "string option"
  env :: "(string \<times> string) list option"

record ExecOptions = SpawnOptions +
  maxBuffer :: "nat option"
  timeout :: "nat option"

record ExecResult =
  stdout :: string
  stderr :: string
  code :: int

datatype event =
    Logged LogLevel string
  | Executed string ExecOptions
  | Spawned string "string list" SpawnOptions

text \<open>
  \<open>execOutcome\<close> is what \<^verbatim>\<open>exec\<close>'s callback reports for a command line (with
  \<^verbatim>\<open>error?.code ?? 0\<close> already taken); \<open>spawnOutcome\<close> is either the child's
  \<^verbatim>\<open>'error'\<close> event (\<open>Inl\<close>, the promise rejects) or its exit code with \<^verbatim>\<open>code ?? 0\<close>
  taken; \<open>processEnv\<close> is \<^verbatim>\<open>process.env\<close>.
\<close>

record Environment =
  execOutcome :: "event list \<Rightarrow> string \<Rightarrow> ExecOptions \<Rightarrow> ExecResult"
  spawnOutcome :: "event list \<Rightarrow> string \<Rightarrow> string list \<Rightarrow> SpawnOptions \<Rightarrow> string + int"
  processEnv :: "string \<Rightarrow> string option"

text \<open>
  An asynchronous function is a function from the trace so far to its outcome and the
  extended trace; \<open>Inl m\<close> is a thrown \<^verbatim>\<open>Error\<close> with message \<open>m\<close> (a rejected promise).
\<close>

type_synonym 'a action = "event list \<Rightarrow> (string + 'a) \<times> event list"

definition succeed :: "'a \<Rightarrow> 'a action" where
  "succeed x tr = (Inr x, tr)"

definition throwError :: "string \<Rightarrow> 'a action" where
  "throwError m tr = (Inl m, tr)"

text \<open>\<^verbatim>\<open>await m\<close> followed by the rest of the function body.\<close>

definition andThen :: "'a action \<Rightarrow> ('a \<Rightarrow> 'b action) \<Rightarrow> 'b action" where
  "andThen m f tr = (case m tr of (Inl e, tr') \<Rightarrow> (Inl e, tr') | (Inr x, tr') \<Rightarrow> f x tr')"

text \<open>\<^verbatim>\<open>try { await m } catch (error) { handler }\<close>.\<close>

definition tryCatch :: "'a action \<Rightarrow> (string \<Rightarrow> 'a action) \<Rightarrow> 'a action" where
  "tryCatch m handler tr = (case m tr of (Inl e, tr') \<Rightarrow> handler e tr' | (Inr x, tr') \<Rightarrow> (Inr x, tr'))"

text \<open>An \<^verbatim>\<open>if\<close> statement without \<^verbatim>\<open>else\<close> whose body returns nothing.\<close>

definition whenDo :: "bool \<Rightarrow> unit action \<Rightarrow> unit action" where
  "whenDo b m = (if b then m else succeed ())"

text \<open>
  A call of one of the logger's methods. (Whether \<^verbatim>\<open>debug\<close> and \<^verbatim>\<open>command\<close> print
  depends on the verbose mode; the call is recorded either way.)
\<close>

definition logger :: "LogLevel \<Rightarrow> string \<Rightarrow> unit action" where
  "logger lvl msg tr = (Inr (), tr @ [Logged lvl msg])"

definition noExecOptions :: ExecOptions where
  "noExecOptions = \<lparr> cwd = None, env = None, maxBuffer = None, timeout = None \<rparr>"

definition runWithCode :: "Environment \<Rightarrow> string \<Rightarrow> ExecOptions \<Rightarrow> ExecResult action" where
  "runWithCode E cmd options =
     andThen (logger LogCommand cmd) (\<lambda>_ tr.
       (Inr (execOutcome E tr cmd options), tr @ [Executed cmd options]))"

definition runStreaming :: "Environment \<Rightarrow> string \<Rightarrow> string list \<Rightarrow> SpawnOptions \<Rightarrow> int action" where
  "runStreaming E cmd args options =
     andThen (logger LogCommand (cmd @ '' '' @ join '' '' args)) (\<lambda>_ tr.
       (case spawnOutcome E tr cmd args options of
          Inl err \<Rightarrow> (Inl err, tr @ [Spawned cmd args options])
        | Inr c \<Rightarrow> (Inr c, tr @ [Spawned cmd args options])))"

section \<open>Docker compose (docker/compose.ts)\<close>

text \<open>
  An optional boolean is \<open>False\<close> when absent, an optional string \<open>None\<close>; the code
  tests both for truthiness only, and the empty string is falsy.
\<close>

record ComposeOptions = ExecOptions +
  composeFile :: "string option"
  projectName :: "string option"
  detach :: bool
  wait :: bool
  removeOrphans :: bool
  noBuild :: bool
  forceRecreate :: bool
  volumes :: bool
  noCache :: bool
  noRm :: bool

definition noComposeOptions :: ComposeOptions where
  "noComposeOptions = \<lparr> cwd = None, env = None, maxBuffer = None, timeout = None,
     composeFile = None, projectName = None, detach = False, wait = False,
     removeOrphans = False, noBuild = False, forceRecreate = False, volumes = False,
     noCache = False, noRm = False \<rparr>"

text \<open>
  \<^verbatim>\<open>if (opt) { args.push(flag, opt) }\<close> for an optional string: nothing is pushed
  when it is absent or empty.
\<close>

definition pushIfSet :: "string \<Rightarrow> string option \<Rightarrow> string list" where
  "pushIfSet flag opt = (case opt of None \<Rightarrow> [] | Some v \<Rightarrow> if v = [] then [] else [flag, v])"

definition buildBaseArgs :: "ComposeOptions \<Rightarrow> string list" where
  "buildBaseArgs options =
     pushIfSet ''-f'' (composeFile options) @ pushIfSet ''-p'' (projectName options)"

definition composeRun :: "Environment \<Rightarrow> string \<Rightarrow> string list \<Rightarrow> ComposeOptions \<Rightarrow> ExecResult action" where
  "composeRun E service command options =
     (let baseArgs = buildBaseArgs options;
          cmd = join '' '' ([''docker'', ''compose''] @ baseArgs @ [''run'', ''--rm'', service] @ command)
      in runWithCode E cmd
           \<lparr> cwd = cwd options, env = env options, maxBuffer = None, timeout = timeout options \<rparr>)"

definition composeUp :: "Environment \<Rightarrow> string list \<Rightarrow> ComposeOptions \<Rightarrow> int action" where
  "composeUp E services options =
     (let baseArgs = buildBaseArgs options;
          upArgs = (if ComposeOptions.detach options then [''-d''] else [])
                   @ (if wait options then [''--wait''] else [])
                   @ (if removeOrphans options then [''--remove-orphans''] else [])
                   @ (if noBuild options then [''--no-build''] else [])
                   @ (if forceRecreate options then [''--force-recreate''] else []);
          args = [''compose''] @ baseArgs @ [''up''] @ upArgs @ services
      in runStreaming E ''docker'' args \<lparr> cwd = cwd options, env = env options \<rparr>)"

definition composeDown :: "Environment \<Rightarrow> ComposeOptions \<Rightarrow> ExecResult action" where
  "composeDown E options =
     (let baseArgs = buildBaseArgs options;
          downArgs = (if volumes options then [''-v''] else [])
                     @ (if removeOrphans options then [''--remove-orphans''] else []);
          cmd = join '' '' ([''docker'', ''compose''] @ baseArgs @ [''down''] @ downArgs)
      in runWithCode E cmd
           \<lparr> cwd = cwd options, env = env options, maxBuffer = None, timeout = timeout options \<rparr>)"

definition composeBuild :: "Environment \<Rightarrow> string list \<Rightarrow> ComposeOptions \<Rightarrow> int action" where
  "composeBuild E services options =
     (let baseArgs = buildBaseArgs options;
          buildArgs = (if ComposeOptions.noCache options then [''--no-cache''] else [])
                      @ (if noRm options then [''--no-rm''] else []);
          args = [''compose''] @ baseArgs @ [''build''] @ buildArgs @ services
      in runStreaming E ''docker'' args \<lparr> cwd = cwd options, env = env options \<rparr>)"

section \<open>Docker images (docker/images.ts)\<close>

text \<open>
  A \<^verbatim>\<open>Record<string, string>\<close> is the list of its entries in insertion order, which is
  the order \<^verbatim>\<open>Object.entries\<close> lists them in (for keys that are not array indices).
\<close>

type_synonym stringRecord = "(string \<times> string) list"

text \<open>\<^verbatim>\<open>{ ...a, ...b }\<close>: the keys of \<open>a\<close> keep their place and take the value \<open>b\<close> gives them.\<close>

definition objectSpread :: "stringRecord \<Rightarrow> stringRecord \<Rightarrow> stringRecord" where
  "objectSpread a b =
     map (\<lambda>(k, v). (k, case map_of b k of None \<Rightarrow> v | Some w \<Rightarrow> w)) a
     @ filter (\<lambda>(k, v). map_of a k = None) b"

record PullOptions = ExecOptions +
  platform :: "string option"

record BuildOptions = ExecOptions +
  buildArgs :: "stringRecord option"
  target :: "string option"
  noCache :: bool
  platform :: "string option"
  contextDir :: "string option"

definition noPullOptions :: PullOptions where
  "noPullOptions = \<lparr> cwd = None, env = None, maxBuffer = None, timeout = None,
     PullOptions.platform = None \<rparr>"

definition noBuildOptions :: BuildOptions where
  "noBuildOptions = \<lparr> cwd = None, env = None, maxBuffer = None, timeout = None,
     buildArgs = None, target = None, noCache = False, platform = None, contextDir = None \<rparr>"

definition pullImage :: "Environment \<Rightarrow> string \<Rightarrow> PullOptions \<Rightarrow> int action" where
  "pullImage E imageName options =
     (let args = [''pull''] @ pushIfSet ''--platform'' (PullOptions.platform options) @ [imageName]
      in runStreaming E ''docker'' args \<lparr> cwd = cwd options, env = env options \<rparr>)"

definition tagImage :: "Environment \<Rightarrow> string \<Rightarrow> string \<Rightarrow> ExecOptions \<Rightarrow> bool action" where
  "tagImage E source targetName options =
     (let cmd = ''docker tag '' @ source @ '' '' @ targetName
      in andThen (runWithCode E cmd options) (\<lambda>result. succeed (ExecResult.code result = 0)))"

definition buildArgFlags :: "stringRecord \<Rightarrow> string list" where
  "buildArgFlags entries = concat (map (\<lambda>(key, v). [''--build-arg'', key @ ''='' @ v]) entries)"

definition buildImage ::
  "Environment \<Rightarrow> string \<Rightarrow> string \<Rightarrow> stringRecord option \<Rightarrow> BuildOptions \<Rightarrow> int action" where
  "buildImage E dockerfile tag buildArgs0 options =
     (let allBuildArgs = objectSpread (case buildArgs0 of None \<Rightarrow> [] | Some a \<Rightarrow> a)
                           (case buildArgs options of None \<Rightarrow> [] | Some b \<Rightarrow> b);
          args = [''build'', ''-f'', dockerfile, ''-t'', tag]
                 @ buildArgFlags allBuildArgs
                 @ pushIfSet ''--target'' (target options)
                 @ (if BuildOptions.noCache options then [''--no-cache''] else [])
                 @ pushIfSet ''--platform'' (BuildOptions.platform options)
                 @ [case contextDir options of None \<Rightarrow> ''.'' | Some c \<Rightarrow> c]
      in runStreaming E ''docker'' args \<lparr> cwd = cwd options, env = env options \<rparr>)"

definition buildImageFromDirectory ::
  "Environment \<Rightarrow> string \<Rightarrow> string \<Rightarrow> BuildOptions \<Rightarrow> int action" where
  "buildImageFromDirectory E directory tag options =
     (let args = [''build'', directory, ''-t'', tag]
                 @ (case buildArgs options of None \<Rightarrow> [] | Some b \<Rightarrow> buildArgFlags b)
                 @ pushIfSet ''--target'' (target options)
                 @ (if BuildOptions.noCache options then [''--no-cache''] else [])
                 @ pushIfSet ''--platform'' (BuildOptions.platform options)
      in runStreaming E ''docker'' args \<lparr> cwd = cwd options, env = env options \<rparr>)"

definition imageExists :: "Environment \<Rightarrow> string \<Rightarrow> ExecOptions \<Rightarrow> bool action" where
  "imageExists E imageName options =
     (let cmd = ''docker image inspect '' @ imageName
      in andThen (runWithCode E cmd options) (\<lambda>result. succeed (ExecResult.code result = 0)))"

section \<open>The init context (orchestration/index.ts, orchestration/anytrust.ts)\<close>

record AnyTrustConfig =
  dasBlsA :: string
  dasBlsB :: string

record InitContext =
  flags :: TestnodeFlags
  workDir :: string
  l2OwnerAddress :: "string option"
  l2OwnerKey :: "string option"
  sequencerAddress :: "string option"
  wasmRoot :: "string option"
  l1ChainId :: int
  anyTrustConfig :: "AnyTrustConfig option"

section \<open>Image builds (orchestration/docker-builds.ts)\<close>

definition NITRO_NODE_VERSION :: string where
  "NITRO_NODE_VERSION = ''offchainlabs/nitro-node:v3.6.7-a7c9f1e''"

definition BLOCKSCOUT_VERSION :: string where
  "BLOCKSCOUT_VERSION = ''offchainlabs/blockscout:v1.1.0-0e716c8''"

definition buildDevNitro :: "Environment \<Rightarrow> InitContext \<Rightarrow> unit action" where
  "buildDevNitro E ctx =
     (let nitroSrc = (case processEnv E ''NITRO_SRC'' of None \<Rightarrow> workDir ctx @ ''/..'' | Some v \<Rightarrow> v)
      in andThen (logger LogStep ''Building Nitro from source'') (\<lambda>_.
         andThen (logger LogDebug (''NITRO_SRC: '' @ nitroSrc)) (\<lambda>_.
         andThen (buildImageFromDirectory E nitroSrc ''nitro-node-dev''
                    (noBuildOptions\<lparr> target := Some ''nitro-node-dev'', cwd := Some (workDir ctx) \<rparr>))
           (\<lambda>exitCode.
         if exitCode \<noteq> 0 then throwError ''Failed to build dev nitro image''
         else succeed ()))))"

definition buildDevBlockscout :: "Environment \<Rightarrow> InitContext \<Rightarrow> unit action" where
  "buildDevBlockscout E ctx =
     andThen (logger LogStep ''Building Blockscout'') (\<lambda>_.
     andThen (buildImage E (workDir ctx @ ''/blockscout/docker/Dockerfile'') ''blockscout'' (Some [])
                (noBuildOptions\<lparr> contextDir := Some (workDir ctx @ ''/blockscout''),
                                 cwd := Some (workDir ctx) \<rparr>))
       (\<lambda>exitCode.
     if exitCode \<noteq> 0 then throwError ''Failed to build dev blockscout image''
     else succeed ()))"

definition buildUtilityImages :: "Environment \<Rightarrow> InitContext \<Rightarrow> unit action" where
  "buildUtilityImages E ctx =
     (let services = [''scripts'', ''rollupcreator'']
                     @ (if tokenbridge (flags ctx) \<or> l3TokenBridge (flags ctx) \<or> ci (flags ctx)
                        then [''tokenbridge''] else [])
      in andThen (logger LogStep (''Building utility images: '' @ join '', '' services)) (\<lambda>_.
         if (case processEnv E ''CI'' of None \<Rightarrow> False | Some v \<Rightarrow> v \<noteq> [])
         then andThen (logger LogDebug ''CI mode detected, using buildx bake for utility images'') (\<lambda>_.
              andThen (runStreaming E ''docker''
                         ([''buildx'', ''bake'', ''--allow=fs=/tmp'', ''--file'', ''docker-compose.yaml'',
                           ''--file'', ''docker-compose-ci-cache.json''] @ services)
                         \<lparr> cwd = Some (workDir ctx), env = None \<rparr>)
                (\<lambda>exitCode.
              if exitCode \<noteq> 0 then throwError ''Failed to build utility images with buildx bake''
              else succeed ()))
         else andThen (composeBuild E services
                         (noComposeOptions\<lparr> cwd := Some (workDir ctx),
                                             ComposeOptions.noCache := forceBuildUtils (flags ctx),
                                             noRm := True \<rparr>))
                (\<lambda>exitCode.
              if exitCode \<noteq> 0 then throwError ''Failed to build utility images''
              else succeed ())))"

definition setupNitroNodeImage :: "Environment \<Rightarrow> InitContext \<Rightarrow> unit action" where
  "setupNitroNodeImage E ctx =
     andThen
       (if devNitro (flags ctx)
        then andThen (logger LogStep ''Tagging dev nitro image'') (\<lambda>_.
             andThen (tagImage E ''nitro-node-dev:latest'' ''nitro-node-dev-testnode'' noExecOptions) (\<lambda>tagged.
             if \<not> tagged then throwError ''Failed to tag dev nitro image'' else succeed ()))
        else andThen (logger LogStep (''Pulling nitro node image: '' @ NITRO_NODE_VERSION)) (\<lambda>_.
             andThen (imageExists E NITRO_NODE_VERSION noExecOptions) (\<lambda>exists.
             andThen
               (if \<not> exists
                then andThen (pullImage E NITRO_NODE_VERSION noPullOptions) (\<lambda>exitCode.
                     if exitCode \<noteq> 0
                     then throwError (''Failed to pull nitro node image: '' @ NITRO_NODE_VERSION)
                     else succeed ())
                else logger LogDebug ''Image already exists, skipping pull'') (\<lambda>_.
             andThen (tagImage E NITRO_NODE_VERSION ''nitro-node-dev-testnode'' noExecOptions) (\<lambda>tagged.
             if \<not> tagged then throwError ''Failed to tag nitro node image'' else succeed ())))))
       (\<lambda>_. logger LogSuccess ''Nitro node image ready'')"

definition setupBlockscoutImage :: "Environment \<Rightarrow> InitContext \<Rightarrow> unit action" where
  "setupBlockscoutImage E ctx =
     (if \<not> blockscout (flags ctx) then succeed ()
      else andThen
        (if devBlockscout (flags ctx)
         then andThen (logger LogStep ''Tagging dev blockscout image'') (\<lambda>_.
              andThen (tagImage E ''blockscout:latest'' ''blockscout-testnode'' noExecOptions) (\<lambda>tagged.
              if \<not> tagged then throwError ''Failed to tag dev blockscout image'' else succeed ()))
         else andThen (logger LogStep (''Pulling blockscout image: '' @ BLOCKSCOUT_VERSION)) (\<lambda>_.
              andThen (imageExists E BLOCKSCOUT_VERSION noExecOptions) (\<lambda>exists.
              andThen
                (if \<not> exists
                 then andThen (pullImage E BLOCKSCOUT_VERSION noPullOptions) (\<lambda>exitCode.
                      if exitCode \<noteq> 0
                      then throwError (''Failed to pull blockscout image: '' @ BLOCKSCOUT_VERSION)
                      else succeed ())
                 else logger LogDebug ''Image already exists, skipping pull'') (\<lambda>_.
              andThen (tagImage E BLOCKSCOUT_VERSION ''blockscout-testnode'' noExecOptions) (\<lambda>tagged.
              if \<not> tagged then throwError ''Failed to tag blockscout image'' else succeed ())))))
        (\<lambda>_. logger LogSuccess ''Blockscout image ready''))"

definition buildNodeImages :: "Environment \<Rightarrow> InitContext \<Rightarrow> unit action" where
  "buildNodeImages E ctx =
     andThen (logger LogStep ''Building node images'') (\<lambda>_.
     (let services = calculateServices (flags ctx)
      in andThen (composeBuild E services
                    (noComposeOptions\<lparr> cwd := Some (workDir ctx), noRm := True \<rparr>))
           (\<lambda>exitCode.
         if exitCode \<noteq> 0 then throwError ''Failed to build node images''
         else logger LogSuccess ''Node images built'')))"

definition buildDockerImages :: "Environment \<Rightarrow> InitContext \<Rightarrow> unit action" where
  "buildDockerImages E ctx =
     andThen (whenDo (devNitro (flags ctx) \<and> TestnodeFlags.buildDevNitro (flags ctx)) (buildDevNitro E ctx)) (\<lambda>_.
     andThen (whenDo (devBlockscout (flags ctx) \<and> TestnodeFlags.buildDevBlockscout (flags ctx)
                       \<and> blockscout (flags ctx))
                (buildDevBlockscout E ctx)) (\<lambda>_.
     andThen (whenDo (buildUtils (flags ctx)) (buildUtilityImages E ctx)) (\<lambda>_.
     andThen (setupNitroNodeImage E ctx) (\<lambda>_.
     andThen (setupBlockscoutImage E ctx) (\<lambda>_.
     andThen (whenDo (TestnodeFlags.buildNodeImages (flags ctx)) (buildNodeImages E ctx)) (\<lambda>_.
     logger LogSuccess ''Docker images ready''))))))"

section \<open>Prysm setup (orchestration/prysm.ts)\<close>

definition writePrysmConfig :: "Environment \<Rightarrow> InitContext \<Rightarrow> unit action" where
  "writePrysmConfig E ctx =
     andThen (logger LogStep ''Writing Prysm config'') (\<lambda>_.
     andThen (composeRun E ''scripts'' [''write-prysm-config'']
                (noComposeOptions\<lparr> cwd := Some (workDir ctx) \<rparr>)) (\<lambda>result.
     if ExecResult.code result \<noteq> 0
     then throwError (''Failed to write Prysm config: '' @ stderr result)
     else succeed ()))"

definition createBeaconChainGenesis :: "Environment \<Rightarrow> InitContext \<Rightarrow> unit action" where
  "createBeaconChainGenesis E ctx =
     andThen (logger LogStep ''Creating Prysm genesis'') (\<lambda>_.
     andThen (composeRun E ''create_beacon_chain_genesis'' []
                (noComposeOptions\<lparr> cwd := Some (workDir ctx), timeout := Some 120000 \<rparr>)) (\<lambda>result.
     if ExecResult.code result \<noteq> 0
     then throwError (''Failed to create beacon chain genesis: '' @ stderr result)
     else succeed ()))"

definition startBeaconChain :: "Environment \<Rightarrow> InitContext \<Rightarrow> unit action" where
  "startBeaconChain E ctx =
     andThen (logger LogStep ''Starting Prysm beacon chain'') (\<lambda>_.
     andThen (composeUp E [''prysm_beacon_chain'']
                (noComposeOptions\<lparr> cwd := Some (workDir ctx), ComposeOptions.detach := True \<rparr>))
       (\<lambda>exitCode.
     if exitCode \<noteq> 0 then throwError ''Failed to start Prysm beacon chain''
     else succeed ()))"

definition startValidator :: "Environment \<Rightarrow> InitContext \<Rightarrow> unit action" where
  "startValidator E ctx =
     andThen (logger LogStep ''Starting Prysm validator'') (\<lambda>_.
     andThen (composeUp E [''prysm_validator'']
                (noComposeOptions\<lparr> cwd := Some (workDir ctx), ComposeOptions.detach := True \<rparr>))
       (\<lambda>exitCode.
     if exitCode \<noteq> 0 then throwError ''Failed to start Prysm validator''
     else succeed ()))"

definition setupPrysm :: "Environment \<Rightarrow> InitContext \<Rightarrow> unit action" where
  "setupPrysm E ctx =
     (if \<not> pos (flags ctx) then logger LogDebug ''Skipping Prysm setup (PoS not enabled)''
      else andThen (logger LogStep ''Setting up Prysm PoS consensus'') (\<lambda>_.
           andThen (writePrysmConfig E ctx) (\<lambda>_.
           andThen (createBeaconChainGenesis E ctx) (\<lambda>_.
           andThen (startBeaconChain E ctx) (\<lambda>_.
           andThen (startValidator E ctx) (\<lambda>_.
           logger LogSuccess ''Prysm PoS setup complete''))))))"

section \<open>L1 setup (orchestration/l1-setup.ts)\<close>

definition generateL1Keys :: "Environment \<Rightarrow> InitContext \<Rightarrow> unit action" where
  "generateL1Keys E ctx =
     andThen (logger LogStep ''Generating L1 keys'') (\<lambda>_.
     andThen (composeRun E ''scripts'' [''write-accounts'']
                (noComposeOptions\<lparr> cwd := Some (workDir ctx) \<rparr>)) (\<lambda>writeAccountsResult.
     if ExecResult.code writeAccountsResult \<noteq> 0
     then throwError (''Failed to write accounts: '' @ stderr writeAccountsResult)
     else
     andThen (composeRun E ''geth'' [''sh'', ''-c'', ''echo passphrase > /datadir/passphrase'']
                (noComposeOptions\<lparr> cwd := Some (workDir ctx) \<rparr>)) (\<lambda>passphraseResult.
     if ExecResult.code passphraseResult \<noteq> 0
     then throwError (''Failed to create passphrase: '' @ stderr passphraseResult)
     else
     andThen (composeRun E ''geth'' [''sh'', ''-c'', ''chown -R 1000:1000 /keystore'']
                (noComposeOptions\<lparr> cwd := Some (workDir ctx) \<rparr>)) (\<lambda>keystoreResult.
     if ExecResult.code keystoreResult \<noteq> 0
     then throwError (''Failed to fix keystore ownership: '' @ stderr keystoreResult)
     else
     andThen (composeRun E ''geth'' [''sh'', ''-c'', ''chown -R 1000:1000 /config'']
                (noComposeOptions\<lparr> cwd := Some (workDir ctx) \<rparr>)) (\<lambda>configResult.
     if ExecResult.code configResult \<noteq> 0
     then throwError (''Failed to fix config ownership: '' @ stderr configResult)
     else logger LogSuccess ''L1 keys generated'')))))"

definition writeGethGenesis :: "Environment \<Rightarrow> InitContext \<Rightarrow> unit action" where
  "writeGethGenesis E ctx =
     andThen (logger LogStep ''Writing geth genesis config'') (\<lambda>_.
     andThen (composeRun E ''scripts'' [''write-geth-genesis-config'']
                (noComposeOptions\<lparr> cwd := Some (workDir ctx) \<rparr>)) (\<lambda>result.
     if ExecResult.code result \<noteq> 0
     then throwError (''Failed to write geth genesis config: '' @ stderr result)
     else succeed ()))"

definition initializeGeth :: "Environment \<Rightarrow> InitContext \<Rightarrow> unit action" where
  "initializeGeth E ctx =
     andThen (logger LogStep ''Initializing geth genesis configuration'') (\<lambda>_.
     andThen (composeRun E ''geth''
                [''init'', ''--state.scheme'', ''hash'', ''--datadir'', ''/datadir/'',
                 ''/config/geth_genesis.json'']
                (noComposeOptions\<lparr> cwd := Some (workDir ctx) \<rparr>)) (\<lambda>result.
     if ExecResult.code result \<noteq> 0
     then throwError (''Failed to initialize geth: '' @ stderr result)
     else succeed ()))"

definition startGeth :: "Environment \<Rightarrow> InitContext \<Rightarrow> unit action" where
  "startGeth E ctx =
     andThen (logger LogStep ''Starting geth'') (\<lambda>_.
     andThen (composeUp E [''geth'']
                (noComposeOptions\<lparr> cwd := Some (workDir ctx), ComposeOptions.detach := True \<rparr>))
       (\<lambda>exitCode.
     if exitCode \<noteq> 0 then throwError ''Failed to start geth''
     else
     andThen (logger LogStep ''Waiting for geth to sync'') (\<lambda>_.
     andThen (composeRun E ''scripts'' [''wait-for-sync'', ''--url'', ''http://geth:8545'']
                (noComposeOptions\<lparr> cwd := Some (workDir ctx), timeout := Some 120000 \<rparr>)) (\<lambda>syncResult.
     if ExecResult.code syncResult \<noteq> 0
     then throwError (''Geth sync failed: '' @ stderr syncResult)
     else logger LogSuccess ''Geth is ready''))))"

text \<open>The body of the \<^verbatim>\<open>for (const account of accounts)\<close> loop of \<^verbatim>\<open>fundAccounts\<close>.\<close>

primrec fundEach :: "Environment \<Rightarrow> InitContext \<Rightarrow> string list \<Rightarrow> unit action" where
  "fundEach E ctx [] = succeed ()"
| "fundEach E ctx (account # accounts) =
     andThen (logger LogDebug (''Funding '' @ account)) (\<lambda>_.
     andThen (composeRun E ''scripts''
                [''send-l1'', ''--ethamount'', ''1000'', ''--to'', account, ''--wait'']
                (noComposeOptions\<lparr> cwd := Some (workDir ctx) \<rparr>)) (\<lambda>result.
     if ExecResult.code result \<noteq> 0
     then throwError (''Failed to fund '' @ account @ '': '' @ stderr result)
     else fundEach E ctx accounts))"

definition fundAccounts :: "Environment \<Rightarrow> InitContext \<Rightarrow> unit action" where
  "fundAccounts E ctx =
     andThen (logger LogStep ''Funding validator, sequencer and l2owner'') (\<lambda>_.
     (let accounts = [''validator'', ''sequencer'', ''l2owner'']
      in andThen (fundEach E ctx accounts) (\<lambda>_.
         logger LogSuccess ''Accounts funded'')))"

definition getL2OwnerAddress :: "Environment \<Rightarrow> InitContext \<Rightarrow> string action" where
  "getL2OwnerAddress E ctx =
     andThen (composeRun E ''scripts'' [''print-address'', ''--account'', ''l2owner'']
                (noComposeOptions\<lparr> cwd := Some (workDir ctx) \<rparr>)) (\<lambda>result.
     if ExecResult.code result \<noteq> 0
     then throwError (''Failed to get l2owner address: '' @ stderr result)
     else (let address = cleanOutput (getLastLine (stdout result))
           in if address = [] \<or> \<not> startsWith address ''0x''
              then throwError (''Invalid l2owner address: '' @ address)
              else succeed address))"

text \<open>\<^verbatim>\<open>setupL1\<close> writes \<^verbatim>\<open>ctx.l2OwnerAddress\<close>; the model returns the updated context.\<close>

definition setupL1 :: "Environment \<Rightarrow> InitContext \<Rightarrow> InitContext action" where
  "setupL1 E ctx =
     andThen (generateL1Keys E ctx) (\<lambda>_.
     andThen (writeGethGenesis E ctx) (\<lambda>_.
     andThen (setupPrysm E ctx) (\<lambda>_.
     andThen (initializeGeth E ctx) (\<lambda>_.
     andThen (startGeth E ctx) (\<lambda>_.
     andThen (fundAccounts E ctx) (\<lambda>_.
     andThen (getL2OwnerAddress E ctx) (\<lambda>address.
     andThen (logger LogDebug (''L2 owner address: '' @ address)) (\<lambda>_.
     andThen (logger LogSuccess ''L1 setup complete'') (\<lambda>_.
     succeed (ctx\<lparr> l2OwnerAddress := Some address \<rparr>))))))))))"

section \<open>Timeboost: the bidding token (orchestration/timeboost.ts)\<close>



section \<open>L2 deployment: the sequencer address (orchestration/l2-deploy.ts)\<close>


section \<open>Timeboost: the auction contract and the auctioneer (orchestration/timeboost.ts)\<close>



section \<open>L3 deployment: addresses and the custom fee token (orchestration/l3-deploy.ts)\<close>





section \<open>The init workflow (orchestration/index.ts)\<close>

definition TESTNODE_VOLUME_PREFIX :: string where
  "TESTNODE_VOLUME_PREFIX = ''nitro-testnode''"

record InitPhase =
  name :: string
  run :: "InitContext \<Rightarrow> InitContext action"
  skip :: "(InitContext \<Rightarrow> bool) option"

definition cleanupExisting :: "Environment \<Rightarrow> InitContext \<Rightarrow> unit action" where
  "cleanupExisting E ctx =
     andThen (logger LogStep ''Removing old data'') (\<lambda>_.
     andThen (composeDown E (noComposeOptions\<lparr> cwd := Some (workDir ctx) \<rparr>)) (\<lambda>downResult.
     andThen (whenDo (ExecResult.code downResult \<noteq> 0)
                (logger LogDebug (''Compose down warning: '' @ stderr downResult))) (\<lambda>_.
     andThen (runWithCode E
                ''docker container ls -a --filter label=com.docker.compose.project=nitro-testnode -q''
                (noExecOptions\<lparr> cwd := Some (workDir ctx) \<rparr>)) (\<lambda>containersResult.
     andThen (whenDo (ExecResult.code containersResult = 0 \<and> trim (stdout containersResult) \<noteq> [])
                (let containerIds = filter (\<lambda>s. s \<noteq> [])
                                      (splitOn CHR 0x0A (trim (stdout containersResult)))
                 in whenDo (length containerIds > 0)
                      (andThen (logger LogDebug (''Removing '' @ numberToString (int (length containerIds))
                                                 @ '' leftover container(s)'')) (\<lambda>_.
                       andThen (runWithCode E (''docker rm '' @ join '' '' containerIds)
                                  (noExecOptions\<lparr> cwd := Some (workDir ctx) \<rparr>)) (\<lambda>_.
                       succeed ()))))) (\<lambda>_.
     andThen (runWithCode E
                (''docker volume prune -f --filter label=com.docker.compose.project='' @ TESTNODE_VOLUME_PREFIX)
                (noExecOptions\<lparr> cwd := Some (workDir ctx) \<rparr>)) (\<lambda>_.
     andThen (runWithCode E
                (''docker volume ls --filter label=com.docker.compose.project='' @ TESTNODE_VOLUME_PREFIX
                 @ '' -q'')
                (noExecOptions\<lparr> cwd := Some (workDir ctx) \<rparr>)) (\<lambda>volumesResult.
     andThen (whenDo (ExecResult.code volumesResult = 0 \<and> trim (stdout volumesResult) \<noteq> [])
                (let volumeNames = filter (\<lambda>s. s \<noteq> [])
                                     (splitOn CHR 0x0A (trim (stdout volumesResult)))
                 in whenDo (length volumeNames > 0)
                      (andThen (logger LogDebug (''Removing '' @ numberToString (int (length volumeNames))
                                                 @ '' leftover volume(s)'')) (\<lambda>_.
                       andThen (runWithCode E (''docker volume rm '' @ join '' '' volumeNames)
                                  (noExecOptions\<lparr> cwd := Some (workDir ctx) \<rparr>)) (\<lambda>_.
                       succeed ()))))) (\<lambda>_.
     logger LogSuccess ''Cleanup complete''))))))))"

text \<open>
  The sub-workflows of the phases that follow the L1 setup (\<^verbatim>\<open>deployL2\<close>,
  \<^verbatim>\<open>configureL2Nodes\<close>, \<^verbatim>\<open>setupTrafficGenerators\<close>) are parameters of the model: what is
  proved about the scheduler below holds for every behaviour they might have.
  \<^verbatim>\<open>deployL2\<close> writes fields of the context and returns the AnyTrust configuration, so
  it yields both.
\<close>

record SubWorkflows =
  deployL2 :: "InitContext \<Rightarrow> (InitContext \<times> AnyTrustConfig option) action"
  configureL2Nodes :: "InitContext \<Rightarrow> AnyTrustConfig option \<Rightarrow> InitContext action"
  setupTrafficGenerators :: "InitContext \<Rightarrow> InitContext action"

text \<open>The body of the \<^verbatim>\<open>Launch services\<close> phase (an inline function in the source).\<close>

definition launchServices :: "Environment \<Rightarrow> InitContext \<Rightarrow> unit action" where
  "launchServices E ctx =
     (let services = calculateServices (flags ctx)
      in andThen (logger LogStep (''Starting services: '' @ join '', '' services)) (\<lambda>_.
         (let useWait = \<not> nowait (flags ctx)
          in andThen (composeUp E services
                        (noComposeOptions\<lparr> ComposeOptions.detach := True, wait := useWait,
                                            cwd := Some (workDir ctx) \<rparr>)) (\<lambda>exitCode.
             if exitCode \<noteq> 0 then throwError ''Failed to launch services''
             else logger LogSuccess ''Services launched''))))"

definition createInitPhases :: "SubWorkflows \<Rightarrow> Environment \<Rightarrow> InitPhase list" where
  "createInitPhases W E =
     [ \<lparr> name = ''Cleanup existing data'',
         run = (\<lambda>ctx. andThen (cleanupExisting E ctx) (\<lambda>_. succeed ctx)),
         skip = None \<rparr>,
       \<lparr> name = ''Build docker images'',
         run = (\<lambda>ctx. andThen (buildDockerImages E ctx) (\<lambda>_. succeed ctx)),
         skip = None \<rparr>,
       \<lparr> name = ''Setup L1 chain'',
         run = (\<lambda>ctx. setupL1 E ctx),
         skip = None \<rparr>,
       \<lparr> name = ''Deploy L2 chain'',
         run = (\<lambda>ctx. andThen (deployL2 W ctx) (\<lambda>(ctx', config).
                         succeed (ctx'\<lparr> anyTrustConfig := config \<rparr>))),
         skip = None \<rparr>,
       \<lparr> name = ''Configure L2 nodes'',
         run = (\<lambda>ctx. configureL2Nodes W ctx (anyTrustConfig ctx)),
         skip = None \<rparr>,
       \<lparr> name = ''Setup traffic generators'',
         run = (\<lambda>ctx. setupTrafficGenerators W ctx),
         skip = Some (\<lambda>ctx. \<not> l1Traffic (flags ctx) \<and> \<not> l2Traffic (flags ctx)
                              \<and> \<not> l3Traffic (flags ctx)) \<rparr>,
       \<lparr> name = ''Launch services'',
         run = (\<lambda>ctx. andThen (launchServices E ctx) (\<lambda>_. succeed ctx)),
         skip = None \<rparr> ]"

text \<open>
  \<^verbatim>\<open>phase.skip?.(ctx)\<close>: a phase without a skip condition is never skipped.
  The \<^verbatim>\<open>for (const phase of phases)\<close> loop of \<^verbatim>\<open>runInit\<close>: a skipped phase is logged
  and passed over; a phase that throws has its name and the error's message logged,
  and the error is thrown again. (A thrown value is modelled by its message, so
  \<^verbatim>\<open>errorMessage\<close> is the error itself.)
\<close>

definition skipRequested :: "InitPhase \<Rightarrow> InitContext \<Rightarrow> bool" where
  "skipRequested phase ctx = (case skip phase of None \<Rightarrow> False | Some p \<Rightarrow> p ctx)"

primrec runPhases :: "InitPhase list \<Rightarrow> InitContext \<Rightarrow> InitContext action" where
  "runPhases [] ctx = succeed ctx"
| "runPhases (phase # phases) ctx =
     (if skipRequested phase ctx
      then andThen (logger LogDebug (''Skipping phase: '' @ name phase)) (\<lambda>_.
           runPhases phases ctx)
      else andThen (logger LogInfo (name phase)) (\<lambda>_.
           andThen (tryCatch (run phase ctx) (\<lambda>error.
                      (let errorMessage = error
                       in andThen (logger LogError (''Phase '' @ [CHR 0x22] @ name phase @ [CHR 0x22]
                                                    @ '' failed: '' @ errorMessage)) (\<lambda>_.
                          throwError error)))) (\<lambda>ctx'.
           runPhases phases ctx')))"

definition runInit :: "SubWorkflows \<Rightarrow> Environment \<Rightarrow> TestnodeFlags \<Rightarrow> string \<Rightarrow> unit action" where
  "runInit W E flags0 workDir0 =
     andThen (logger LogInfo ''Initializing Nitro Testnode'') (\<lambda>_.
     (let ctx = \<lparr> flags = flags0, workDir = workDir0, l2OwnerAddress = None, l2OwnerKey = None,
                  sequencerAddress = None, wasmRoot = None, l1ChainId = 1337,
                  anyTrustConfig = None \<rparr>;
          phases = createInitPhases W E
      in andThen (runPhases phases ctx) (\<lambda>_.
         logger LogSuccess ''Testnode initialization complete'')))"


section \<open>Stub environments and notions used to state the properties\<close>

text \<open>
  A command executor stub: every \<^verbatim>\<open>exec\<close> is answered by \<open>answer\<close> from the command
  line alone, every \<^verbatim>\<open>spawn\<close> exits with code 0, and \<^verbatim>\<open>process.env\<close> is empty.
\<close>

definition stubEnvironment :: "(string \<Rightarrow> ExecResult) \<Rightarrow> Environment" where
  "stubEnvironment answer =
     \<lparr> execOutcome = (\<lambda>tr cmd options. answer cmd),
       spawnOutcome = (\<lambda>tr cmd args options. Inr 0),
       processEnv = (\<lambda>v. None) \<rparr>"


definition exitsWith :: "int \<Rightarrow> string \<Rightarrow> string \<Rightarrow> ExecResult" where
  "exitsWith c out err = \<lparr> stdout = out, stderr = err, code = c \<rparr>"

text \<open>Sub-workflows for the later phases that fail at once when they are entered.\<close>

definition unreachedSubWorkflows :: SubWorkflows where
  "unreachedSubWorkflows =
     \<lparr> deployL2 = (\<lambda>ctx. throwError ''deployL2 entered''),
       configureL2Nodes = (\<lambda>ctx config. throwError ''configureL2Nodes entered''),
       setupTrafficGenerators = (\<lambda>ctx. throwError ''setupTrafficGenerators entered'') \<rparr>"

text \<open>\<^verbatim>\<open>s.includes(p)\<close>: \<open>p\<close> occurs in \<open>s\<close>.\<close>

fun includesText :: "string \<Rightarrow> string \<Rightarrow> bool" where
  "includesText [] p = (p = [])"
| "includesText (c # cs) p = (startsWith (c # cs) p \<or> includesText cs p)"








section \<open>Properties of the service topology\<close>

declare natToString.simps [simp del]

lemmas validation_defs =
  validateFlags_def validateRuntimeDependencies_def validateL3Dependencies_def
  validateRangeConstraints_def generateWarnings_def MAX_BATCH_POSTERS_def
  MAX_REDUNDANT_SEQUENCERS_def MIN_FEE_TOKEN_DECIMALS_def MAX_FEE_TOKEN_DECIMALS_def

text \<open>
  Claim C1: with \<^verbatim>\<open>simple=true\<close> and \<^verbatim>\<open>batchposters=2\<close> (every other flag at its
  default) the topology is to contain none of \<^verbatim>\<open>poster\<close>, \<^verbatim>\<open>poster_b\<close>, \<^verbatim>\<open>poster_c\<close>,
  and \<^verbatim>\<open>validateFlags\<close> is to return \<^verbatim>\<open>valid=true\<close> with the warning
  \<^verbatim>\<open>SIMPLE_MODE_IGNORES_BATCH_POSTERS\<close>. The validation half holds of the code: the
  result is valid, without errors, and its first warning has that code and the message
  \<^verbatim>\<open>Simple mode uses a single combined node; batchposters setting will be ignored\<close>.
  The topology half does not: \<^verbatim>\<open>calculateServices\<close> guards only the first poster with
  \<^verbatim>\<open>!flags.simple\<close>, so the setting that the warning announces as ignored still puts
  \<^verbatim>\<open>poster_b\<close> into the topology, which is \<^verbatim>\<open>['sequencer', 'poster_b']\<close>.
\<close>

theorem simple_mode_still_launches_second_poster:
  "valid (validateFlags (defaultFlags\<lparr>simple := True, batchposters := 2\<rparr>))
   \<and> errors (validateFlags (defaultFlags\<lparr>simple := True, batchposters := 2\<rparr>)) = []
   \<and> map ValidationWarning.code
         (warnings (validateFlags (defaultFlags\<lparr>simple := True, batchposters := 2\<rparr>)))
       = [''SIMPLE_MODE_IGNORES_BATCH_POSTERS'', ''L3_TRAFFIC_WITHOUT_L3NODE'']
   \<and> ValidationWarning.message
         (hd (warnings (validateFlags (defaultFlags\<lparr>simple := True, batchposters := 2\<rparr>))))
       = ''Simple mode uses a single combined node; batchposters setting will be ignored''
   \<and> calculateServices (defaultFlags\<lparr>simple := True, batchposters := 2\<rparr>)
       = [''sequencer'', ''poster_b'']
   \<and> ''poster_b'' \<in> set (calculateServices (defaultFlags\<lparr>simple := True, batchposters := 2\<rparr>))"
  by (simp add: calculateServices_def defaultFlags_def validation_defs)

text \<open>
  Claim C4: for every flag set, \<^verbatim>\<open>calculateServices\<close> includes \<^verbatim>\<open>poster\<close> exactly when
  \<^verbatim>\<open>batchposters > 0\<close> and \<^verbatim>\<open>simple\<close> is false; it includes \<^verbatim>\<open>poster_b\<close> exactly when
  \<^verbatim>\<open>batchposters > 1\<close> and \<^verbatim>\<open>poster_c\<close> exactly when \<^verbatim>\<open>batchposters > 2\<close>, whatever
  \<^verbatim>\<open>simple\<close> is.
\<close>

theorem posters_by_count_and_simple:
  "(''poster'' \<in> set (calculateServices f)) = (batchposters f > 0 \<and> \<not> simple f)
   \<and> (''poster_b'' \<in> set (calculateServices f)) = (batchposters f > 1)
   \<and> (''poster_c'' \<in> set (calculateServices f)) = (batchposters f > 2)"
  by (simp add: calculateServices_def)

text \<open>
  Claim C7: for \<^verbatim>\<open>batchposters=2\<close>, \<^verbatim>\<open>redundantsequencers=0\<close> and \<^verbatim>\<open>simple\<close>,
  \<^verbatim>\<open>validate\<close>, \<^verbatim>\<open>l3node\<close>, \<^verbatim>\<open>blockscout\<close>, \<^verbatim>\<open>l2Timeboost\<close> all false (whatever
  the fields that \<^verbatim>\<open>calculateServices\<close> does not read), the result is exactly the five
  services \<^verbatim>\<open>sequencer\<close>, \<^verbatim>\<open>redis\<close>, \<^verbatim>\<open>poster\<close>, \<^verbatim>\<open>poster_b\<close>, \<^verbatim>\<open>staker-unsafe\<close>, with
  no duplicates.
\<close>

theorem two_posters_non_simple_topology:
  "calculateServices \<lparr> simple = False, redundantsequencers = 0, batchposters = 2, validate = False,
       l3node = False, blockscout = False, l2Timeboost = False, \<dots> = more \<rparr>
     = [''sequencer'', ''redis'', ''poster'', ''poster_b'', ''staker-unsafe'']
   \<and> distinct (calculateServices \<lparr> simple = False, redundantsequencers = 0, batchposters = 2,
       validate = False, l3node = False, blockscout = False, l2Timeboost = False, \<dots> = more \<rparr>)
   \<and> length (calculateServices \<lparr> simple = False, redundantsequencers = 0, batchposters = 2,
       validate = False, l3node = False, blockscout = False, l2Timeboost = False, \<dots> = more \<rparr>) = 5"
  by (simp add: calculateServices_def)

text \<open>
  Claim C9: for every flag set, \<^verbatim>\<open>calculateServices\<close> never includes both \<^verbatim>\<open>validator\<close>
  and \<^verbatim>\<open>staker-unsafe\<close>; it includes \<^verbatim>\<open>validator\<close> exactly when \<^verbatim>\<open>validate\<close> is true,
  \<^verbatim>\<open>staker-unsafe\<close> exactly when \<^verbatim>\<open>validate\<close> and \<^verbatim>\<open>simple\<close> are both false, and
  neither exactly when \<^verbatim>\<open>validate\<close> is false and \<^verbatim>\<open>simple\<close> is true.
\<close>

theorem validator_xor_staker:
  "\<not> (''validator'' \<in> set (calculateServices f) \<and> ''staker-unsafe'' \<in> set (calculateServices f))
   \<and> (''validator'' \<in> set (calculateServices f)) = validate f
   \<and> (''staker-unsafe'' \<in> set (calculateServices f)) = (\<not> validate f \<and> \<not> simple f)
   \<and> (''validator'' \<notin> set (calculateServices f) \<and> ''staker-unsafe'' \<notin> set (calculateServices f))
       = (\<not> validate f \<and> simple f)"
  by (auto simp add: calculateServices_def)

text \<open>
  Claim C10: for every flag set, \<^verbatim>\<open>calculateInitialSequencerNodes\<close> returns
  \<^verbatim>\<open>sequencer\<close> first, followed by \<^verbatim>\<open>sequencer_b\<close> exactly when
  \<^verbatim>\<open>redundantsequencers > 0\<close>, and every service it returns is a member of the list
  \<^verbatim>\<open>calculateServices\<close> returns for the same f.
\<close>

theorem initial_sequencers_in_topology:
  "set (calculateInitialSequencerNodes f) \<subseteq> set (calculateServices f)
   \<and> calculateInitialSequencerNodes f
       = ''sequencer'' # (if redundantsequencers f > 0 then [''sequencer_b''] else [])"
  by (auto simp add: calculateServices_def calculateInitialSequencerNodes_def)

section \<open>Properties of the flag validation\<close>

lemma in_cond_single: "(x \<in> set (if c then [a] else [])) = (c \<and> x = a)"
  by auto

lemma distinct_cond_single: "distinct (if c then [a] else [])"
  by simp

lemma cond_single_disjoint: "(set (if c then [a] else []) \<inter> S = {}) = (c \<longrightarrow> a \<notin> S)"
  by auto

text \<open>
  Claim C5: \<^verbatim>\<open>validateFlags\<close> reports every violated fatal rule together, not only the
  first. For each of the eight fatal rules, whatever the other flags are, the rule's
  code occurs in the errors list exactly when the rule is violated; no code occurs
  twice, no other code occurs, and the result is valid exactly when the list is empty.
  In particular, with \<^verbatim>\<open>l3FeeTokenPricer=true\<close>, \<^verbatim>\<open>l3FeeToken=false\<close>, \<^verbatim>\<open>l3node=true\<close>,
  the decimals within \<open>[0,36]\<close> and the remaining rules satisfied (not \<^verbatim>\<open>nowait\<close>
  without \<^verbatim>\<open>detach\<close>, both counts within \<open>[0,3]\<close>), the errors are exactly
  \<^verbatim>\<open>L3_FEE_TOKEN_PRICER_REQUIRES_FEE_TOKEN\<close>, followed by
  \<^verbatim>\<open>L3_FEE_TOKEN_DECIMALS_REQUIRES_FEE_TOKEN\<close> exactly when the decimals are not 18;
  the result is not valid. (The numeric flags are integers here.)
\<close>

theorem every_violated_rule_reported:
  "(''NOWAIT_REQUIRES_DETACH'' \<in> set (map ValidationError.code (errors (validateFlags f))))
     = (nowait f \<and> \<not> TestnodeFlags.detach f)
   \<and> (''L3_FEE_TOKEN_REQUIRES_L3NODE'' \<in> set (map ValidationError.code (errors (validateFlags f))))
     = (l3FeeToken f \<and> \<not> l3node f)
   \<and> (''L3_FEE_TOKEN_PRICER_REQUIRES_FEE_TOKEN''
        \<in> set (map ValidationError.code (errors (validateFlags f))))
     = (l3FeeTokenPricer f \<and> \<not> l3FeeToken f)
   \<and> (''L3_FEE_TOKEN_DECIMALS_REQUIRES_FEE_TOKEN''
        \<in> set (map ValidationError.code (errors (validateFlags f))))
     = (l3FeeTokenDecimals f \<noteq> 18 \<and> \<not> l3FeeToken f)
   \<and> (''L3_TOKEN_BRIDGE_REQUIRES_L3NODE'' \<in> set (map ValidationError.code (errors (validateFlags f))))
     = (l3TokenBridge f \<and> \<not> l3node f)
   \<and> (''L3_FEE_TOKEN_DECIMALS_OUT_OF_RANGE''
        \<in> set (map ValidationError.code (errors (validateFlags f))))
     = (l3FeeTokenDecimals f < 0 \<or> l3FeeTokenDecimals f > 36)
   \<and> (''BATCH_POSTERS_OUT_OF_RANGE'' \<in> set (map ValidationError.code (errors (validateFlags f))))
     = (batchposters f < 0 \<or> batchposters f > 3)
   \<and> (''REDUNDANT_SEQUENCERS_OUT_OF_RANGE''
        \<in> set (map ValidationError.code (errors (validateFlags f))))
     = (redundantsequencers f < 0 \<or> redundantsequencers f > 3)
   \<and> distinct (map ValidationError.code (errors (validateFlags f)))
   \<and> set (map ValidationError.code (errors (validateFlags f)))
       \<subseteq> {''NOWAIT_REQUIRES_DETACH'',
          ''L3_FEE_TOKEN_REQUIRES_L3NODE'',
          ''L3_FEE_TOKEN_PRICER_REQUIRES_FEE_TOKEN'',
          ''L3_FEE_TOKEN_DECIMALS_REQUIRES_FEE_TOKEN'',
          ''L3_TOKEN_BRIDGE_REQUIRES_L3NODE'',
          ''L3_FEE_TOKEN_DECIMALS_OUT_OF_RANGE'',
          ''BATCH_POSTERS_OUT_OF_RANGE'',
          ''REDUNDANT_SEQUENCERS_OUT_OF_RANGE''}
   \<and> valid (validateFlags f) = (errors (validateFlags f) = [])
   \<and> (l3FeeTokenPricer f \<and> \<not> l3FeeToken f \<and> l3node f
        \<and> \<not> (nowait f \<and> \<not> TestnodeFlags.detach f)
        \<and> 0 \<le> l3FeeTokenDecimals f \<and> l3FeeTokenDecimals f \<le> 36
        \<and> 0 \<le> batchposters f \<and> batchposters f \<le> 3
        \<and> 0 \<le> redundantsequencers f \<and> redundantsequencers f \<le> 3
      \<longrightarrow> errors (validateFlags f) =
           [\<lparr> ValidationError.code = ''L3_FEE_TOKEN_PRICER_REQUIRES_FEE_TOKEN'',
              message = ''--l3-fee-token-pricer requires --l3-fee-token to be provided'',
              field = Some ''l3FeeTokenPricer'' \<rparr>]
           @ (if l3FeeTokenDecimals f \<noteq> 18
              then [\<lparr> ValidationError.code = ''L3_FEE_TOKEN_DECIMALS_REQUIRES_FEE_TOKEN'',
                      message = ''--l3-fee-token-decimals requires --l3-fee-token to be provided'',
                      field = Some ''l3FeeTokenDecimals'' \<rparr>]
              else [])
         \<and> \<not> valid (validateFlags f))"
proof -
  have codes: "map ValidationError.code (errors (validateFlags f)) =
      (if nowait f \<and> \<not> TestnodeFlags.detach f then [''NOWAIT_REQUIRES_DETACH''] else [])
      @ (if l3FeeToken f \<and> \<not> l3node f then [''L3_FEE_TOKEN_REQUIRES_L3NODE''] else [])
      @ (if l3FeeTokenPricer f \<and> \<not> l3FeeToken f
         then [''L3_FEE_TOKEN_PRICER_REQUIRES_FEE_TOKEN''] else [])
      @ (if l3FeeTokenDecimals f \<noteq> 18 \<and> \<not> l3FeeToken f
         then [''L3_FEE_TOKEN_DECIMALS_REQUIRES_FEE_TOKEN''] else [])
      @ (if l3TokenBridge f \<and> \<not> l3node f then [''L3_TOKEN_BRIDGE_REQUIRES_L3NODE''] else [])
      @ (if l3FeeTokenDecimals f < 0 \<or> l3FeeTokenDecimals f > 36
         then [''L3_FEE_TOKEN_DECIMALS_OUT_OF_RANGE''] else [])
      @ (if batchposters f < 0 \<or> batchposters f > 3 then [''BATCH_POSTERS_OUT_OF_RANGE''] else [])
      @ (if redundantsequencers f < 0 \<or> redundantsequencers f > 3
         then [''REDUNDANT_SEQUENCERS_OUT_OF_RANGE''] else [])"
    by (simp add: validation_defs)
  have v: "valid (validateFlags f) = (errors (validateFlags f) = [])"
    by (simp add: validateFlags_def Let_def)
  have inst: "l3FeeTokenPricer f \<and> \<not> l3FeeToken f \<and> l3node f
        \<and> \<not> (nowait f \<and> \<not> TestnodeFlags.detach f)
        \<and> 0 \<le> l3FeeTokenDecimals f \<and> l3FeeTokenDecimals f \<le> 36
        \<and> 0 \<le> batchposters f \<and> batchposters f \<le> 3
        \<and> 0 \<le> redundantsequencers f \<and> redundantsequencers f \<le> 3
      \<longrightarrow> errors (validateFlags f) =
           [\<lparr> ValidationError.code = ''L3_FEE_TOKEN_PRICER_REQUIRES_FEE_TOKEN'',
              message = ''--l3-fee-token-pricer requires --l3-fee-token to be provided'',
              field = Some ''l3FeeTokenPricer'' \<rparr>]
           @ (if l3FeeTokenDecimals f \<noteq> 18
              then [\<lparr> ValidationError.code = ''L3_FEE_TOKEN_DECIMALS_REQUIRES_FEE_TOKEN'',
                      message = ''--l3-fee-token-decimals requires --l3-fee-token to be provided'',
                      field = Some ''l3FeeTokenDecimals'' \<rparr>]
              else [])
         \<and> \<not> valid (validateFlags f)"
    by (simp add: validation_defs)
  have m: "\<And>x. (x \<in> set (map ValidationError.code (errors (validateFlags f)))) =
      ((nowait f \<and> \<not> TestnodeFlags.detach f) \<and> x = ''NOWAIT_REQUIRES_DETACH''
       \<or> (l3FeeToken f \<and> \<not> l3node f) \<and> x = ''L3_FEE_TOKEN_REQUIRES_L3NODE''
       \<or> (l3FeeTokenPricer f \<and> \<not> l3FeeToken f) \<and> x = ''L3_FEE_TOKEN_PRICER_REQUIRES_FEE_TOKEN''
       \<or> (l3FeeTokenDecimals f \<noteq> 18 \<and> \<not> l3FeeToken f)
          \<and> x = ''L3_FEE_TOKEN_DECIMALS_REQUIRES_FEE_TOKEN''
       \<or> (l3TokenBridge f \<and> \<not> l3node f) \<and> x = ''L3_TOKEN_BRIDGE_REQUIRES_L3NODE''
       \<or> (l3FeeTokenDecimals f < 0 \<or> l3FeeTokenDecimals f > 36)
          \<and> x = ''L3_FEE_TOKEN_DECIMALS_OUT_OF_RANGE''
       \<or> (batchposters f < 0 \<or> batchposters f > 3) \<and> x = ''BATCH_POSTERS_OUT_OF_RANGE''
       \<or> (redundantsequencers f < 0 \<or> redundantsequencers f > 3)
          \<and> x = ''REDUNDANT_SEQUENCERS_OUT_OF_RANGE'')"
    unfolding codes by (simp only: set_append Un_iff in_cond_single)
  have d: "distinct (map ValidationError.code (errors (validateFlags f)))"
    unfolding codes
    by (simp only: distinct_append distinct_cond_single cond_single_disjoint set_append Un_iff
          in_cond_single; simp)
  have i1: "(''NOWAIT_REQUIRES_DETACH'' \<in> set (map ValidationError.code (errors (validateFlags f))))
     = (nowait f \<and> \<not> TestnodeFlags.detach f)"
    unfolding m by simp
  have i2: "(''L3_FEE_TOKEN_REQUIRES_L3NODE'' \<in> set (map ValidationError.code (errors (validateFlags f))))
     = (l3FeeToken f \<and> \<not> l3node f)"
    unfolding m by simp
  have i3: "(''L3_FEE_TOKEN_PRICER_REQUIRES_FEE_TOKEN''
        \<in> set (map ValidationError.code (errors (validateFlags f))))
     = (l3FeeTokenPricer f \<and> \<not> l3FeeToken f)"
    unfolding m by simp
  have i4: "(''L3_FEE_TOKEN_DECIMALS_REQUIRES_FEE_TOKEN''
        \<in> set (map ValidationError.code (errors (validateFlags f))))
     = (l3FeeTokenDecimals f \<noteq> 18 \<and> \<not> l3FeeToken f)"
    unfolding m by simp
  have i5: "(''L3_TOKEN_BRIDGE_REQUIRES_L3NODE'' \<in> set (map ValidationError.code (errors (validateFlags f))))
     = (l3TokenBridge f \<and> \<not> l3node f)"
    unfolding m by simp
  have i6: "(''L3_FEE_TOKEN_DECIMALS_OUT_OF_RANGE''
        \<in> set (map ValidationError.code (errors (validateFlags f))))
     = (l3FeeTokenDecimals f < 0 \<or> l3FeeTokenDecimals f > 36)"
    unfolding m by simp
  have i7: "(''BATCH_POSTERS_OUT_OF_RANGE'' \<in> set (map ValidationError.code (errors (validateFlags f))))
     = (batchposters f < 0 \<or> batchposters f > 3)"
    unfolding m by simp
  have i8: "(''REDUNDANT_SEQUENCERS_OUT_OF_RANGE''
        \<in> set (map ValidationError.code (errors (validateFlags f))))
     = (redundantsequencers f < 0 \<or> redundantsequencers f > 3)"
    unfolding m by simp
  have sub: "set (map ValidationError.code (errors (validateFlags f)))
      \<subseteq> {''NOWAIT_REQUIRES_DETACH'',
         ''L3_FEE_TOKEN_REQUIRES_L3NODE'',
         ''L3_FEE_TOKEN_PRICER_REQUIRES_FEE_TOKEN'',
         ''L3_FEE_TOKEN_DECIMALS_REQUIRES_FEE_TOKEN'',
         ''L3_TOKEN_BRIDGE_REQUIRES_L3NODE'',
         ''L3_FEE_TOKEN_DECIMALS_OUT_OF_RANGE'',
         ''BATCH_POSTERS_OUT_OF_RANGE'',
         ''REDUNDANT_SEQUENCERS_OUT_OF_RANGE''}"
  proof (rule subsetI)
    fix x
    assume "x \<in> set (map ValidationError.code (errors (validateFlags f)))"
    then show "x \<in> {''NOWAIT_REQUIRES_DETACH'',
          ''L3_FEE_TOKEN_REQUIRES_L3NODE'',
          ''L3_FEE_TOKEN_PRICER_REQUIRES_FEE_TOKEN'',
          ''L3_FEE_TOKEN_DECIMALS_REQUIRES_FEE_TOKEN'',
          ''L3_TOKEN_BRIDGE_REQUIRES_L3NODE'',
          ''L3_FEE_TOKEN_DECIMALS_OUT_OF_RANGE'',
          ''BATCH_POSTERS_OUT_OF_RANGE'',
          ''REDUNDANT_SEQUENCERS_OUT_OF_RANGE''}"
      unfolding m by (elim disjE conjE) simp_all
  qed
  show ?thesis
    by (intro conjI) (rule i1 i2 i3 i4 i5 i6 i7 i8 d sub v inst)+
qed


theorem every_violated_rule_reported_witness:
  "map ValidationError.code (errors (validateFlags
       (defaultFlags\<lparr>l3node := True, l3FeeTokenPricer := True, l3FeeTokenDecimals := 6\<rparr>)))
     = [''L3_FEE_TOKEN_PRICER_REQUIRES_FEE_TOKEN'', ''L3_FEE_TOKEN_DECIMALS_REQUIRES_FEE_TOKEN'']
   \<and> \<not> valid (validateFlags
       (defaultFlags\<lparr>l3node := True, l3FeeTokenPricer := True, l3FeeTokenDecimals := 6\<rparr>))
   \<and> ''NOWAIT_REQUIRES_DETACH'' \<in> set (map ValidationError.code (errors (validateFlags
       (defaultFlags\<lparr>nowait := True, l3FeeTokenPricer := True, l3FeeTokenDecimals := 40,
                     batchposters := 5\<rparr>))))
   \<and> ''L3_FEE_TOKEN_PRICER_REQUIRES_FEE_TOKEN'' \<in> set (map ValidationError.code (errors (validateFlags
       (defaultFlags\<lparr>nowait := True, l3FeeTokenPricer := True, l3FeeTokenDecimals := 40,
                     batchposters := 5\<rparr>))))
   \<and> ''L3_FEE_TOKEN_DECIMALS_OUT_OF_RANGE'' \<in> set (map ValidationError.code (errors (validateFlags
       (defaultFlags\<lparr>nowait := True, l3FeeTokenPricer := True, l3FeeTokenDecimals := 40,
                     batchposters := 5\<rparr>))))
   \<and> ''BATCH_POSTERS_OUT_OF_RANGE'' \<in> set (map ValidationError.code (errors (validateFlags
       (defaultFlags\<lparr>nowait := True, l3FeeTokenPricer := True, l3FeeTokenDecimals := 40,
                     batchposters := 5\<rparr>))))
   \<and> ''REDUNDANT_SEQUENCERS_OUT_OF_RANGE'' \<notin> set (map ValidationError.code (errors (validateFlags
       (defaultFlags\<lparr>nowait := True, l3FeeTokenPricer := True, l3FeeTokenDecimals := 40,
                     batchposters := 5\<rparr>))))"
proof -
  note a = every_violated_rule_reported
      [of "defaultFlags\<lparr>l3node := True, l3FeeTokenPricer := True, l3FeeTokenDecimals := 6\<rparr>"]
  note b = every_violated_rule_reported
      [of "defaultFlags\<lparr>nowait := True, l3FeeTokenPricer := True, l3FeeTokenDecimals := 40,
                     batchposters := 5\<rparr>"]
  have "errors (validateFlags
       (defaultFlags\<lparr>l3node := True, l3FeeTokenPricer := True, l3FeeTokenDecimals := 6\<rparr>)) =
           [\<lparr> ValidationError.code = ''L3_FEE_TOKEN_PRICER_REQUIRES_FEE_TOKEN'',
              message = ''--l3-fee-token-pricer requires --l3-fee-token to be provided'',
              field = Some ''l3FeeTokenPricer'' \<rparr>,
            \<lparr> ValidationError.code = ''L3_FEE_TOKEN_DECIMALS_REQUIRES_FEE_TOKEN'',
              message = ''--l3-fee-token-decimals requires --l3-fee-token to be provided'',
              field = Some ''l3FeeTokenDecimals'' \<rparr>]
        \<and> \<not> valid (validateFlags
       (defaultFlags\<lparr>l3node := True, l3FeeTokenPricer := True, l3FeeTokenDecimals := 6\<rparr>))"
    using a[THEN conjunct2, THEN conjunct2, THEN conjunct2, THEN conjunct2, THEN conjunct2,
            THEN conjunct2, THEN conjunct2, THEN conjunct2, THEN conjunct2, THEN conjunct2,
            THEN conjunct2]
    by (simp add: defaultFlags_def)
  moreover have "''NOWAIT_REQUIRES_DETACH'' \<in> set (map ValidationError.code (errors (validateFlags
       (defaultFlags\<lparr>nowait := True, l3FeeTokenPricer := True, l3FeeTokenDecimals := 40,
                     batchposters := 5\<rparr>))))"
    unfolding b[THEN conjunct1] by (simp add: defaultFlags_def)
  moreover have "''L3_FEE_TOKEN_PRICER_REQUIRES_FEE_TOKEN'' \<in> set (map ValidationError.code
       (errors (validateFlags
       (defaultFlags\<lparr>nowait := True, l3FeeTokenPricer := True, l3FeeTokenDecimals := 40,
                     batchposters := 5\<rparr>))))"
    unfolding b[THEN conjunct2, THEN conjunct2, THEN conjunct1] by (simp add: defaultFlags_def)
  moreover have "''L3_FEE_TOKEN_DECIMALS_OUT_OF_RANGE'' \<in> set (map ValidationError.code
       (errors (validateFlags
       (defaultFlags\<lparr>nowait := True, l3FeeTokenPricer := True, l3FeeTokenDecimals := 40,
                     batchposters := 5\<rparr>))))"
    unfolding b[THEN conjunct2, THEN conjunct2, THEN conjunct2, THEN conjunct2, THEN conjunct2,
                THEN conjunct1]
    by (simp add: defaultFlags_def)
  moreover have "''BATCH_POSTERS_OUT_OF_RANGE'' \<in> set (map ValidationError.code
       (errors (validateFlags
       (defaultFlags\<lparr>nowait := True, l3FeeTokenPricer := True, l3FeeTokenDecimals := 40,
                     batchposters := 5\<rparr>))))"
    unfolding b[THEN conjunct2, THEN conjunct2, THEN conjunct2, THEN conjunct2, THEN conjunct2,
                THEN conjunct2, THEN conjunct1]
    by (simp add: defaultFlags_def)
  moreover have "''REDUNDANT_SEQUENCERS_OUT_OF_RANGE'' \<notin> set (map ValidationError.code
       (errors (validateFlags
       (defaultFlags\<lparr>nowait := True, l3FeeTokenPricer := True, l3FeeTokenDecimals := 40,
                     batchposters := 5\<rparr>))))"
    unfolding b[THEN conjunct2, THEN conjunct2, THEN conjunct2, THEN conjunct2, THEN conjunct2,
                THEN conjunct2, THEN conjunct2, THEN conjunct1]
    by (simp add: defaultFlags_def)
  ultimately show ?thesis
    by simp
qed

text \<open>
  Claim C6: for every flag set with \<^verbatim>\<open>nowait=true\<close> and \<^verbatim>\<open>detach=false\<close> that satisfies
  every other fatal rule (the four L3 dependencies and the three ranges),
  \<^verbatim>\<open>validateFlags\<close> returns \<^verbatim>\<open>valid=false\<close> and its errors are exactly the one
  \<^verbatim>\<open>NOWAIT_REQUIRES_DETACH\<close> item.
\<close>

theorem nowait_without_detach_only_error:
  assumes "nowait f" and "\<not> TestnodeFlags.detach f"
    and "\<not> (l3FeeToken f \<and> \<not> l3node f)"
    and "\<not> (l3FeeTokenPricer f \<and> \<not> l3FeeToken f)"
    and "\<not> (l3FeeTokenDecimals f \<noteq> 18 \<and> \<not> l3FeeToken f)"
    and "\<not> (l3TokenBridge f \<and> \<not> l3node f)"
    and "0 \<le> l3FeeTokenDecimals f" and "l3FeeTokenDecimals f \<le> 36"
    and "0 \<le> batchposters f" and "batchposters f \<le> 3"
    and "0 \<le> redundantsequencers f" and "redundantsequencers f \<le> 3"
  shows "\<not> valid (validateFlags f)
         \<and> errors (validateFlags f) =
           [\<lparr> ValidationError.code = ''NOWAIT_REQUIRES_DETACH'',
              message = ''--nowait requires --detach to be provided'',
              field = Some ''nowait'' \<rparr>]"
  using assms by (simp add: validation_defs)

theorem nowait_without_detach_only_error_witness:
  "\<not> valid (validateFlags (defaultFlags\<lparr>nowait := True\<rparr>))
   \<and> map ValidationError.code (errors (validateFlags (defaultFlags\<lparr>nowait := True\<rparr>)))
       = [''NOWAIT_REQUIRES_DETACH'']"
  using nowait_without_detach_only_error [of "defaultFlags\<lparr>nowait := True\<rparr>"]
  by (simp add: defaultFlags_def)

section \<open>Properties of the output extraction\<close>

text \<open>The definitions a concrete run against a stub environment unfolds.\<close>

lemmas run_defs =
  stubEnvironment_def exitsWith_def logger_def andThen_def succeed_def throwError_def whenDo_def
  runWithCode_def runStreaming_def composeRun_def composeUp_def composeDown_def composeBuild_def
  buildBaseArgs_def pushIfSet_def noComposeOptions_def noExecOptions_def noPullOptions_def
  noBuildOptions_def Let_def

text \<open>Sequencing: what \<open>andThen\<close> does after a step whose outcome is known.\<close>

lemma andThen_succeed [simp]: "andThen (succeed x) f tr = f x tr"
  by (simp add: andThen_def succeed_def)

lemma andThen_throwError [simp]: "andThen (throwError m) f tr = (Inl m, tr)"
  by (simp add: andThen_def throwError_def)

lemma andThen_logger [simp]: "andThen (logger lvl msg) f tr = f () (tr @ [Logged lvl msg])"
  by (simp add: andThen_def logger_def)


lemma andThen_Inl: "m tr = (Inl e, tr') \<Longrightarrow> andThen m f tr = (Inl e, tr')"
  by (simp add: andThen_def)



lemma splitOnFrom_not_Nil [simp]: "splitOnFrom sep cur s \<noteq> []"
  by (induction s arbitrary: cur) auto



lemma splitWhiteSpaceFrom_not_Nil [simp]: "splitWhiteSpaceFrom cur s \<noteq> []"
  by (induction cur s rule: splitWhiteSpaceFrom.induct) auto



lemma splitWhiteSpace_not_Nil [simp]: "splitWhiteSpace s \<noteq> []"
  by (simp add: splitWhiteSpace_def)








lemma splitOn_not_Nil [simp]: "splitOn sep s \<noteq> []"
  by (simp add: splitOn_def)


















section \<open>Properties of the phase scheduler\<close>

text \<open>
  The loop over a list of phases is the loop over a first part followed by the loop
  over the rest; a phase that throws ends the loop, whatever follows it in the list.
\<close>

lemma andThen_assoc: "andThen (andThen m f) g = andThen m (\<lambda>x. andThen (f x) g)"
  by (auto simp: andThen_def fun_eq_iff split: prod.splits sum.splits)

lemma runPhases_append:
  "runPhases (ps @ qs) ctx tr = andThen (runPhases ps ctx) (runPhases qs) tr"
proof (induction ps arbitrary: ctx tr)
  case Nil
  show ?case by simp
next
  case (Cons p ps)
  show ?case
    by (simp add: Cons andThen_def tryCatch_def logger_def split: prod.splits sum.splits)
qed

lemma runPhases_failing_phase:
  assumes "runPhases ps ctx tr = (Inr ctx1, t1)"
    and "\<not> skipRequested p ctx1"
    and "run p ctx1 (t1 @ [Logged LogInfo (name p)]) = (Inl e, t2)"
  shows "runPhases (ps @ p # qs) ctx tr =
           (Inl e, t2 @ [Logged LogError (''Phase '' @ [CHR 0x22] @ name p @ [CHR 0x22]
                                        @ '' failed: '' @ e)])"
  using assms
  by (simp add: runPhases_append andThen_def tryCatch_def logger_def throwError_def)

text \<open>
  Claim C3, as stated: the error the caller of \<^verbatim>\<open>runInit\<close> receives carries the name
  of the failing phase. This fails: when tagging the node image fails in the phase
  \<^verbatim>\<open>Build docker images\<close>, the caller receives \<^verbatim>\<open>Failed to tag nitro node image\<close>,
  in which the phase name does not occur; the name only appears in the logged line.
\<close>

theorem rethrown_error_lacks_phase_name:
  "fst (runInit unreachedSubWorkflows
          (stubEnvironment (\<lambda>cmd.
             if cmd = ''docker tag offchainlabs/nitro-node:v3.6.7-a7c9f1e nitro-node-dev-testnode''
             then exitsWith 1 [] ''No such image'' else exitsWith 0 [] []))
          defaultFlags ''/testnode'' [])
     = Inl ''Failed to tag nitro node image''
   \<and> \<not> includesText ''Failed to tag nitro node image'' ''Build docker images''
   \<and> last (snd (runInit unreachedSubWorkflows
          (stubEnvironment (\<lambda>cmd.
             if cmd = ''docker tag offchainlabs/nitro-node:v3.6.7-a7c9f1e nitro-node-dev-testnode''
             then exitsWith 1 [] ''No such image'' else exitsWith 0 [] []))
          defaultFlags ''/testnode'' []))
     = Logged LogError (''Phase '' @ [CHR 0x22] @ ''Build docker images'' @ [CHR 0x22]
                        @ '' failed: Failed to tag nitro node image'')"
  by (simp add: runInit_def createInitPhases_def skipRequested_def tryCatch_def cleanupExisting_def
        buildDockerImages_def setupNitroNodeImage_def setupBlockscoutImage_def
        imageExists_def tagImage_def NITRO_NODE_VERSION_def defaultFlags_def run_defs
        trim_def TESTNODE_VOLUME_PREFIX_def startsWith_def)

text \<open>
  Claim C3, amended: when the body of a phase throws, \<^verbatim>\<open>runInit\<close> logs one error line
  \<^verbatim>\<open>Phase "<name>" failed: <message>\<close> that names the failing phase and throws the
  original error again, unchanged (the error the caller receives does not itself carry
  the phase name); no further phase executes: the trace ends with that log line, right
  after what the failing body did. Stated for the phase at any index \<open>i\<close> of the list
  \<^verbatim>\<open>createInitPhases\<close> returns, reached after the phases before it have completed.
\<close>

theorem failing_phase_is_logged_and_rethrown:
  assumes "ctx0 = \<lparr> flags = f, workDir = wd, l2OwnerAddress = None, l2OwnerKey = None,
                    sequencerAddress = None, wasmRoot = None, l1ChainId = 1337,
                    anyTrustConfig = None \<rparr>"
    and "i < length (createInitPhases W E)"
    and "runPhases (take i (createInitPhases W E)) ctx0
           (tr @ [Logged LogInfo ''Initializing Nitro Testnode'']) = (Inr ctx1, t1)"
    and "\<not> skipRequested (createInitPhases W E ! i) ctx1"
    and "run (createInitPhases W E ! i) ctx1
           (t1 @ [Logged LogInfo (name (createInitPhases W E ! i))]) = (Inl e, t2)"
  shows "runInit W E f wd tr =
           (Inl e, t2 @ [Logged LogError (''Phase '' @ [CHR 0x22] @ name (createInitPhases W E ! i)
                                        @ [CHR 0x22] @ '' failed: '' @ e)])"
proof -
  have split: "createInitPhases W E =
      take i (createInitPhases W E) @ (createInitPhases W E ! i) # drop (Suc i) (createInitPhases W E)"
    using assms(2) by (rule id_take_nth_drop)
  have "runPhases (createInitPhases W E) ctx0 (tr @ [Logged LogInfo ''Initializing Nitro Testnode''])
        = (Inl e, t2 @ [Logged LogError (''Phase '' @ [CHR 0x22] @ name (createInitPhases W E ! i)
                                        @ [CHR 0x22] @ '' failed: '' @ e)])"
    by (subst split) (rule runPhases_failing_phase[OF assms(3) assms(4) assms(5)])
  then show ?thesis
    unfolding runInit_def Let_def assms(1)[symmetric]
    by (simp add: andThen_def logger_def)
qed

theorem failing_phase_is_logged_and_rethrown_witness:
  "runInit unreachedSubWorkflows
     (stubEnvironment (\<lambda>cmd.
        if cmd = ''docker compose run --rm scripts write-accounts''
        then exitsWith 1 [] ''permission denied'' else exitsWith 0 [] []))
     defaultFlags ''/testnode'' []
   = (Inl ''Failed to write accounts: permission denied'',
      snd (runInit unreachedSubWorkflows
        (stubEnvironment (\<lambda>cmd.
           if cmd = ''docker compose run --rm scripts write-accounts''
           then exitsWith 1 [] ''permission denied'' else exitsWith 0 [] []))
        defaultFlags ''/testnode'' []))
   \<and> last (snd (runInit unreachedSubWorkflows
        (stubEnvironment (\<lambda>cmd.
           if cmd = ''docker compose run --rm scripts write-accounts''
           then exitsWith 1 [] ''permission denied'' else exitsWith 0 [] []))
        defaultFlags ''/testnode'' []))
     = Logged LogError (''Phase '' @ [CHR 0x22] @ ''Setup L1 chain'' @ [CHR 0x22]
                        @ '' failed: Failed to write accounts: permission denied'')"
proof -
  let ?E = "stubEnvironment (\<lambda>cmd.
        if cmd = ''docker compose run --rm scripts write-accounts''
        then exitsWith 1 [] ''permission denied'' else exitsWith 0 [] [])"
  let ?W = unreachedSubWorkflows
  let ?ctx = "\<lparr> flags = defaultFlags, workDir = ''/testnode'', l2OwnerAddress = None,
                l2OwnerKey = None, sequencerAddress = None, wasmRoot = None, l1ChainId = 1337,
                anyTrustConfig = None \<rparr>"
  define t1 where "t1 = snd (runPhases (take 2 (createInitPhases ?W ?E)) ?ctx
                          ([] @ [Logged LogInfo ''Initializing Nitro Testnode'']))"
  define t2 where "t2 = snd (run (createInitPhases ?W ?E ! 2) ?ctx
                          (t1 @ [Logged LogInfo (name (createInitPhases ?W ?E ! 2))]))"
  have h1: "2 < length (createInitPhases ?W ?E)"
    by (simp add: createInitPhases_def)
  have h2: "runPhases (take 2 (createInitPhases ?W ?E)) ?ctx
              ([] @ [Logged LogInfo ''Initializing Nitro Testnode'']) = (Inr ?ctx, t1)"
    unfolding t1_def
    by (simp add: createInitPhases_def skipRequested_def tryCatch_def cleanupExisting_def
          buildDockerImages_def setupNitroNodeImage_def setupBlockscoutImage_def
          imageExists_def tagImage_def NITRO_NODE_VERSION_def defaultFlags_def run_defs
          trim_def TESTNODE_VOLUME_PREFIX_def)
  have h3: "\<not> skipRequested (createInitPhases ?W ?E ! 2) ?ctx"
    by (simp add: createInitPhases_def skipRequested_def)
  have h4: "run (createInitPhases ?W ?E ! 2) ?ctx
              (t1 @ [Logged LogInfo (name (createInitPhases ?W ?E ! 2))])
            = (Inl ''Failed to write accounts: permission denied'', t2)"
    unfolding t2_def
    by (simp add: createInitPhases_def setupL1_def generateL1Keys_def run_defs)
  have r: "runInit ?W ?E defaultFlags ''/testnode'' [] =
          (Inl ''Failed to write accounts: permission denied'',
           t2 @ [Logged LogError (''Phase '' @ [CHR 0x22] @ name (createInitPhases ?W ?E ! 2)
                                  @ [CHR 0x22] @ '' failed: ''
                                  @ ''Failed to write accounts: permission denied'')])"
    by (rule failing_phase_is_logged_and_rethrown[OF refl h1 h2 h3 h4])
  show ?thesis
    unfolding r by (simp add: createInitPhases_def)
qed









































end
